theory Spec2Isabelle
  imports Complex_Main
begin

section \<open>The FastAPI template in its two variants\<close>

text \<open>
  The repository holds one scaffold twice:
  \<^item> variant 1, \<^verbatim>\<open>src/kandil_code/templates/python/fastapi/app/main.py\<close>, with the
    handlers \<^verbatim>\<open>read_root\<close>, \<^verbatim>\<open>read_item\<close> and \<^verbatim>\<open>create_item\<close>;
  \<^item> variant 2, \<^verbatim>\<open>src/templates/python/fastapi/app/main.py\<close>, with the same three
    handlers and \<^verbatim>\<open>healthz\<close> and \<^verbatim>\<open>readyz\<close> besides.

  Every definition whose name ends in \<open>_v1\<close> is translated from the first file, every
  definition whose name ends in \<open>_v2\<close> from the second. The handlers are Python
  functions; what turns an HTTP request into their arguments and their result into a
  response body is the web framework, which is not part of the repository. Its contract
  for the annotations the source writes (\<^verbatim>\<open>item_id: int\<close>, \<^verbatim>\<open>q: str = None\<close>,
  \<^verbatim>\<open>item: Item\<close>) is modelled below, and everything in it that the source does not fix
  is a parameter (the record \<open>framework\<close>).
\<close>

subsection \<open>JSON values\<close>

text \<open>
  Request and response bodies are JSON. An object keeps its members in the order in
  which they are written, as a Python dict does. A number that is no integer is a
  rational: every finite double is one.
\<close>

datatype json =
    JNull
  | JBool bool
  | JInt int
  | JFloat rat
  | JStr string
  | JArr "json list"
  | JObj "(string \<times> json) list"

text \<open>
  Reading the member \<open>k\<close> of a parsed object. When the text of a body repeats a key,
  Python's parser keeps the last occurrence, so the list is searched from its end.
\<close>

definition dict_get :: "(string \<times> json) list \<Rightarrow> string \<Rightarrow> json option" where
  "dict_get kvs k = map_of (rev kvs) k"

text \<open>A Python value that is \<^verbatim>\<open>None\<close> or a \<^verbatim>\<open>str\<close>, as JSON.\<close>

definition json_of_opt_str :: "string option \<Rightarrow> json" where
  "json_of_opt_str q = (case q of None \<Rightarrow> JNull | Some s \<Rightarrow> JStr s)"

subsection \<open>Requests, errors and responses\<close>

text \<open>
  A request is given by the route it matches and the raw inputs of that route:
  \<^item> \<open>GetItem seg q\<close> is \<^verbatim>\<open>GET /items/{item_id}\<close> with the path segment \<open>seg\<close> and the
    query parameter \<^verbatim>\<open>q\<close> (\<open>None\<close> when the query string does not supply it);
  \<^item> \<open>PostItem b\<close> is \<^verbatim>\<open>POST /items/\<close> with the parsed body \<open>b\<close> (\<open>None\<close> when the
    bytes of the body are no JSON text).
\<close>

datatype request =
    GetRoot
  | GetItem string "string option"
  | PostItem "json option"
  | GetHealthz
  | GetReadyz

datatype error =
    RequestValidationError
  | NotFound

type_synonym response = "error + json"

subsection \<open>What the framework decides\<close>

text \<open>
  The source names neither a version of the framework nor one of its validation
  library, and they differ between versions in four places. Each is a parameter:
  \<^item> \<open>path_int\<close>: the coercion of a path segment to a Python \<^verbatim>\<open>int\<close>;
  \<^item> \<open>lax_str\<close>: the coercion to \<^verbatim>\<open>str\<close> of a JSON boolean or number (pydantic 1.x turns
    the number 5 into the text 5, pydantic 2.x refuses it);
  \<^item> \<open>lax_dict\<close>: the reading as an object of a body that is not one (pydantic 1.x reads
    an array of pairs as the object with these members, pydantic 2.x refuses it);
  \<^item> \<open>none_default_nullable\<close>: whether a field declared \<^verbatim>\<open>str = None\<close> accepts an
    explicit null (pydantic 1.x reads such a field as optional, pydantic 2.x does not).
\<close>

record framework =
  path_int :: "string \<Rightarrow> int option"
  lax_str :: "json \<Rightarrow> string option"
  lax_dict :: "json \<Rightarrow> (string \<times> json) list option"
  none_default_nullable :: bool

text \<open>
  A field annotated \<^verbatim>\<open>str\<close>: a string is taken as it is; a boolean or a number is left
  to the coercion; null, an array and an object are refused by every version.
\<close>

definition validate_str :: "framework \<Rightarrow> json \<Rightarrow> error + string" where
  "validate_str fw v =
     (case v of
        JStr s \<Rightarrow> Inr s
      | JNull \<Rightarrow> Inl RequestValidationError
      | JArr xs \<Rightarrow> Inl RequestValidationError
      | JObj kvs \<Rightarrow> Inl RequestValidationError
      | _ \<Rightarrow> (case lax_str fw v of
                None \<Rightarrow> Inl RequestValidationError
              | Some s \<Rightarrow> Inr s))"

text \<open>A body as the object the model is built from, when the framework reads it as one.\<close>

definition body_dict :: "framework \<Rightarrow> json \<Rightarrow> (string \<times> json) list option" where
  "body_dict fw body =
     (case body of
        JObj kvs \<Rightarrow> Some kvs
      | _ \<Rightarrow> lax_dict fw body)"

text \<open>
  A field declared \<^verbatim>\<open>str = None\<close>: an absent member takes the default \<^verbatim>\<open>None\<close>, which is
  not validated.
\<close>

definition validate_str_default_none :: "framework \<Rightarrow> json option \<Rightarrow> error + string option" where
  "validate_str_default_none fw vo =
     (case vo of
        None \<Rightarrow> Inr None
      | Some JNull \<Rightarrow>
          (if none_default_nullable fw then Inr None else Inl RequestValidationError)
      | Some v \<Rightarrow>
          (case validate_str fw v of
             Inl e \<Rightarrow> Inl e
           | Inr s \<Rightarrow> Inr (Some s)))"

subsection \<open>Double arithmetic\<close>

text \<open>
  A Python \<^verbatim>\<open>float\<close> is an IEEE 754 double. A finite double is modelled by its value, a
  rational, and an operation by the exact operation followed by rounding to the nearest
  double, ties to the even significand: 53 bits at the exponent of the argument, and
  multiples of \<open>2 powi (- 1074)\<close> below the normal range. Infinities are not modelled;
  the values of the clock are bounded so that no result below leaves the finite range.
\<close>

text \<open>\<open>log2n n\<close> is the integer part of the binary logarithm of \<open>n\<close>, for \<open>n \<ge> 1\<close>.\<close>

function log2n :: "int \<Rightarrow> int" where
  "log2n n = (if n < 2 then 0 else log2n (n div 2) + 1)"
  by pat_completeness auto
termination
  by (relation "measure nat") auto

declare log2n.simps [simp del]

text \<open>The binade of a positive rational: \<open>2 powi ilog2 x \<le> x < 2 powi (ilog2 x + 1)\<close>.\<close>

definition ilog2 :: "rat \<Rightarrow> int" where
  "ilog2 x =
     (if 1 \<le> x then log2n \<lfloor>x\<rfloor>
      else - (log2n (\<lceil>1 / x\<rceil> - 1) + 1))"

definition round_half_even :: "rat \<Rightarrow> int" where
  "round_half_even y =
     (let f = \<lfloor>y\<rfloor>; r = y - of_int f
      in if r < 1 / 2 then f
         else if 1 / 2 < r then f + 1
         else if even f then f else f + 1)"

definition double_round :: "rat \<Rightarrow> rat" where
  "double_round x =
     (if x = 0 then 0
      else (let e = max (ilog2 \<bar>x\<bar> - 52) (- 1074)
            in of_int (round_half_even (x / 2 powi e)) * 2 powi e))"

definition double_sub :: "rat \<Rightarrow> rat \<Rightarrow> rat" where
  "double_sub a b = double_round (a - b)"

definition double_mul :: "rat \<Rightarrow> rat \<Rightarrow> rat" where
  "double_mul a b = double_round (a * b)"

text \<open>Python's \<^verbatim>\<open>int(x)\<close> on a float truncates towards zero.\<close>

definition py_int :: "rat \<Rightarrow> int" where
  "py_int x = (if 0 \<le> x then \<lfloor>x\<rfloor> else \<lceil>x\<rceil>)"

subsection \<open>The state around the handlers\<close>

text \<open>
  What \<^verbatim>\<open>time.time()\<close> returns is a double that counts seconds since the epoch; the
  system clock it reads is a 64-bit count, so the value is a double of magnitude at
  most \<open>2 ^ 63\<close>.
\<close>

definition is_timestamp :: "rat \<Rightarrow> bool" where
  "is_timestamp x \<longleftrightarrow> \<bar>x\<bar> \<le> 2 ^ 63 \<and> double_round x = x"

typedef timestamp = "{x. is_timestamp x}"
  morphisms stamp_value Stamp
proof
  show "0 \<in> {x. is_timestamp x}"
    by (simp add: is_timestamp_def double_round_def)
qed

setup_lifting type_definition_timestamp

text \<open>The timestamp with the value \<open>x\<close>, when \<open>x\<close> is the value of one (and 0 otherwise).\<close>

lift_definition stamp :: "rat \<Rightarrow> timestamp" is
  "\<lambda>x. if is_timestamp x then x else 0"
  by (simp add: is_timestamp_def double_round_def)

text \<open>
  A handler runs in a process, at some time. \<open>shared\<close> stands for whatever state the
  process keeps between requests (module globals, a store), of any type. The clock is
  the only thing outside the request that a handler of the source reads: \<open>clock w k\<close> is
  the value that the \<open>k\<close>-th call of \<^verbatim>\<open>time.time()\<close> returns to the handler that runs in
  the world \<open>w\<close>, counted from 0 within the call. Reading the clock changes nothing; that
  time has passed when the next request arrives is a change of \<open>clock\<close> made by the
  environment between two calls (see \<open>serve_timed\<close>), not by a handler.
\<close>

record 's world =
  clock :: "nat \<Rightarrow> timestamp"
  shared :: 's

text \<open>One call of \<^verbatim>\<open>time.time()\<close>: the value, and the number of reads the call has made.\<close>

definition time_time :: "'s world \<Rightarrow> nat \<Rightarrow> rat \<times> nat" where
  "time_time w k = (stamp_value (clock w k), Suc k)"

section \<open>Variant 1\<close>

text \<open>
  \<^verbatim>\<open>
  class Item(BaseModel):
      name: str
      description: str = None
  \<close>
\<close>

record Item_v1 =
  name_v1 :: string
  description_v1 :: "string option"

text \<open>Building an \<^verbatim>\<open>Item\<close> from a parsed body: the framework's validation of the model.\<close>

definition Item_v1_validate :: "framework \<Rightarrow> json \<Rightarrow> error + Item_v1" where
  "Item_v1_validate fw body =
     (case body_dict fw body of
        None \<Rightarrow> Inl RequestValidationError
      | Some kvs \<Rightarrow>
          (case dict_get kvs ''name'' of
             None \<Rightarrow> Inl RequestValidationError
           | Some v \<Rightarrow>
               (case validate_str fw v of
                  Inl e \<Rightarrow> Inl e
                | Inr n \<Rightarrow>
                    (case validate_str_default_none fw (dict_get kvs ''description'') of
                       Inl e \<Rightarrow> Inl e
                     | Inr d \<Rightarrow> Inr \<lparr>name_v1 = n, description_v1 = d\<rparr>))))"

text \<open>An \<^verbatim>\<open>Item\<close> returned by a handler, as the response body: its fields in order.\<close>

definition Item_v1_json :: "Item_v1 \<Rightarrow> json" where
  "Item_v1_json it =
     JObj [(''name'', JStr (name_v1 it)), (''description'', json_of_opt_str (description_v1 it))]"

text \<open>
  \<^verbatim>\<open>
  @app.get("/")
  def read_root():
      return {"Hello": "World"}
  \<close>
\<close>

definition read_root_v1 :: json where
  "read_root_v1 = JObj [(''Hello'', JStr ''World'')]"

text \<open>
  \<^verbatim>\<open>
  @app.get("/items/{item_id}")
  def read_item(item_id: int, q: str = None):
      return {"item_id": item_id, "q": q}
  \<close>
\<close>

definition read_item_v1 :: "int \<Rightarrow> string option \<Rightarrow> json" where
  "read_item_v1 item_id q = JObj [(''item_id'', JInt item_id), (''q'', json_of_opt_str q)]"

text \<open>
  \<^verbatim>\<open>
  @app.post("/items/")
  def create_item(item: Item):
      return item
  \<close>
\<close>

definition create_item_v1 :: "Item_v1 \<Rightarrow> Item_v1" where
  "create_item_v1 item = item"

text \<open>
  The arguments of \<^verbatim>\<open>read_item\<close> from a request: \<^verbatim>\<open>item_id\<close> is the path segment coerced
  to \<^verbatim>\<open>int\<close>, \<^verbatim>\<open>q\<close> the query parameter or its default \<^verbatim>\<open>None\<close>.
\<close>

definition bind_read_item_v1 :: "framework \<Rightarrow> string \<Rightarrow> string option \<Rightarrow> error + int \<times> string option" where
  "bind_read_item_v1 fw seg q =
     (case path_int fw seg of
        None \<Rightarrow> Inl RequestValidationError
      | Some item_id \<Rightarrow> Inr (item_id, q))"

definition get_item_v1 :: "framework \<Rightarrow> string \<Rightarrow> string option \<Rightarrow> response" where
  "get_item_v1 fw seg q =
     (case bind_read_item_v1 fw seg q of
        Inl e \<Rightarrow> Inl e
      | Inr (item_id, q') \<Rightarrow> Inr (read_item_v1 item_id q'))"

text \<open>The argument of \<^verbatim>\<open>create_item\<close> from a request: the body, validated as an \<^verbatim>\<open>Item\<close>.\<close>

definition bind_create_item_v1 :: "framework \<Rightarrow> json option \<Rightarrow> error + Item_v1" where
  "bind_create_item_v1 fw b =
     (case b of
        None \<Rightarrow> Inl RequestValidationError
      | Some body \<Rightarrow> Item_v1_validate fw body)"

definition post_item_v1 :: "framework \<Rightarrow> json option \<Rightarrow> response" where
  "post_item_v1 fw b =
     (case bind_create_item_v1 fw b of
        Inl e \<Rightarrow> Inl e
      | Inr item \<Rightarrow> Inr (Item_v1_json (create_item_v1 item)))"

text \<open>The routes the first file registers; it has none for the two probes.\<close>

definition app_v1 :: "framework \<Rightarrow> 's world \<Rightarrow> request \<Rightarrow> response \<times> 's world" where
  "app_v1 fw w r =
     (case r of
        GetRoot \<Rightarrow> (Inr read_root_v1, w)
      | GetItem seg q \<Rightarrow> (get_item_v1 fw seg q, w)
      | PostItem b \<Rightarrow> (post_item_v1 fw b, w)
      | GetHealthz \<Rightarrow> (Inl NotFound, w)
      | GetReadyz \<Rightarrow> (Inl NotFound, w))"

section \<open>Variant 2\<close>

record Item_v2 =
  name_v2 :: string
  description_v2 :: "string option"

definition Item_v2_validate :: "framework \<Rightarrow> json \<Rightarrow> error + Item_v2" where
  "Item_v2_validate fw body =
     (case body_dict fw body of
        None \<Rightarrow> Inl RequestValidationError
      | Some kvs \<Rightarrow>
          (case dict_get kvs ''name'' of
             None \<Rightarrow> Inl RequestValidationError
           | Some v \<Rightarrow>
               (case validate_str fw v of
                  Inl e \<Rightarrow> Inl e
                | Inr n \<Rightarrow>
                    (case validate_str_default_none fw (dict_get kvs ''description'') of
                       Inl e \<Rightarrow> Inl e
                     | Inr d \<Rightarrow> Inr \<lparr>name_v2 = n, description_v2 = d\<rparr>))))"

definition Item_v2_json :: "Item_v2 \<Rightarrow> json" where
  "Item_v2_json it =
     JObj [(''name'', JStr (name_v2 it)), (''description'', json_of_opt_str (description_v2 it))]"

definition read_root_v2 :: json where
  "read_root_v2 = JObj [(''Hello'', JStr ''World'')]"

definition read_item_v2 :: "int \<Rightarrow> string option \<Rightarrow> json" where
  "read_item_v2 item_id q = JObj [(''item_id'', JInt item_id), (''q'', json_of_opt_str q)]"

definition create_item_v2 :: "Item_v2 \<Rightarrow> Item_v2" where
  "create_item_v2 item = item"

text \<open>
  \<^verbatim>\<open>
  @app.get("/healthz")
  def healthz():
      return {"status": "ok"}
  \<close>
\<close>

definition healthz :: json where
  "healthz = JObj [(''status'', JStr ''ok'')]"

text \<open>
  \<^verbatim>\<open>
  @app.get("/readyz")
  def readyz():
      start = time.time()
      elapsed_ms = int((time.time() - start) * 1000)
      return {"ready": True, "elapsed_ms": elapsed_ms}
  \<close>
\<close>

text \<open>
  The handler reads the clock twice, one read after the other, and touches nothing
  else: the world it leaves is the world it found. The product is by the integer 1000,
  which Python converts to the double 1000.0.
\<close>

definition readyz :: "'s world \<Rightarrow> json \<times> 's world" where
  "readyz w =
     (let (start, k1) = time_time w 0;
          (now, k2) = time_time w k1;
          elapsed_ms = py_int (double_mul (double_sub now start) 1000)
      in (JObj [(''ready'', JBool True), (''elapsed_ms'', JInt elapsed_ms)], w))"

definition bind_read_item_v2 :: "framework \<Rightarrow> string \<Rightarrow> string option \<Rightarrow> error + int \<times> string option" where
  "bind_read_item_v2 fw seg q =
     (case path_int fw seg of
        None \<Rightarrow> Inl RequestValidationError
      | Some item_id \<Rightarrow> Inr (item_id, q))"

definition get_item_v2 :: "framework \<Rightarrow> string \<Rightarrow> string option \<Rightarrow> response" where
  "get_item_v2 fw seg q =
     (case bind_read_item_v2 fw seg q of
        Inl e \<Rightarrow> Inl e
      | Inr (item_id, q') \<Rightarrow> Inr (read_item_v2 item_id q'))"

definition bind_create_item_v2 :: "framework \<Rightarrow> json option \<Rightarrow> error + Item_v2" where
  "bind_create_item_v2 fw b =
     (case b of
        None \<Rightarrow> Inl RequestValidationError
      | Some body \<Rightarrow> Item_v2_validate fw body)"

definition post_item_v2 :: "framework \<Rightarrow> json option \<Rightarrow> response" where
  "post_item_v2 fw b =
     (case bind_create_item_v2 fw b of
        Inl e \<Rightarrow> Inl e
      | Inr item \<Rightarrow> Inr (Item_v2_json (create_item_v2 item)))"

definition app_v2 :: "framework \<Rightarrow> 's world \<Rightarrow> request \<Rightarrow> response \<times> 's world" where
  "app_v2 fw w r =
     (case r of
        GetRoot \<Rightarrow> (Inr read_root_v2, w)
      | GetItem seg q \<Rightarrow> (get_item_v2 fw seg q, w)
      | PostItem b \<Rightarrow> (post_item_v2 fw b, w)
      | GetHealthz \<Rightarrow> (Inr healthz, w)
      | GetReadyz \<Rightarrow> (case readyz w of (body, w') \<Rightarrow> (Inr body, w')))"

section \<open>Serving a sequence of requests\<close>

text \<open>
  The framework's dispatch loop calls one handler per request; the world a call leaves is
  the world the next call starts in.
\<close>

fun serve :: "('w \<Rightarrow> request \<Rightarrow> response \<times> 'w) \<Rightarrow> 'w \<Rightarrow> request list \<Rightarrow> response list \<times> 'w" where
  "serve app w [] = ([], w)"
| "serve app w (r # rs) =
     (case app w r of
        (a, w1) \<Rightarrow> (case serve app w1 rs of (as, w2) \<Rightarrow> (a # as, w2)))"

text \<open>
  The same loop with time passing: before each call the environment sets the clock that
  the call will read.
\<close>

fun serve_timed ::
  "('s world \<Rightarrow> request \<Rightarrow> response \<times> 's world) \<Rightarrow> 's world \<Rightarrow>
     ((nat \<Rightarrow> timestamp) \<times> request) list \<Rightarrow> response list \<times> 's world" where
  "serve_timed app w [] = ([], w)"
| "serve_timed app w ((c, r) # rest) =
     (case app (w\<lparr>clock := c\<rparr>) r of
        (a, w1) \<Rightarrow> (case serve_timed app w1 rest of (as, w2) \<Rightarrow> (a # as, w2)))"

section \<open>Instances of the parameters\<close>

text \<open>
  The examples need a framework and a world to run in. The coercion \<open>decimal_int\<close>
  reads a plain decimal numeral with an optional minus sign, which every version of the
  framework accepts as an \<^verbatim>\<open>int\<close>. Two frameworks use it:
  \<^item> \<open>framework_strict\<close> coerces nothing;
  \<^item> \<open>framework_lax\<close> turns an integer or a boolean into its Python text, reads an array
    of two-element arrays with string keys as an object, and takes a \<^verbatim>\<open>None\<close> default as
    making the field optional.

  On the bodies of the examples the first does what pydantic 2.x does and the second
  what pydantic 1.x does. They are instances of the parameters and stand for no version
  elsewhere: \<open>framework_lax\<close> refuses a float, whose Python text is not modelled.
\<close>

definition digit_val :: "char \<Rightarrow> nat option" where
  "digit_val c =
     (let n = (of_char c :: nat) in if 48 \<le> n \<and> n \<le> 57 then Some (n - 48) else None)"

fun digits_val :: "nat \<Rightarrow> string \<Rightarrow> nat option" where
  "digits_val acc [] = Some acc"
| "digits_val acc (c # cs) =
     (case digit_val c of
        None \<Rightarrow> None
      | Some d \<Rightarrow> digits_val (10 * acc + d) cs)"

definition decimal_int :: "string \<Rightarrow> int option" where
  "decimal_int s =
     (case s of
        [] \<Rightarrow> None
      | c # cs \<Rightarrow>
          (if c = CHR ''-'' then
             (if cs = [] then None else map_option (\<lambda>n. - int n) (digits_val 0 cs))
           else map_option int (digits_val 0 s)))"

text \<open>Python's \<^verbatim>\<open>str\<close> of an integer and of a boolean.\<close>

function int_digits :: "int \<Rightarrow> string" where
  "int_digits n =
     (if n < 10 then [char_of (48 + n)]
      else int_digits (n div 10) @ [char_of (48 + n mod 10)])"
  by pat_completeness auto
termination
  by (relation "measure nat") auto

declare int_digits.simps [simp del]

definition py_str_int :: "int \<Rightarrow> string" where
  "py_str_int i = (if i < 0 then CHR ''-'' # int_digits (- i) else int_digits i)"

definition scalar_text :: "json \<Rightarrow> string option" where
  "scalar_text v =
     (case v of
        JInt i \<Rightarrow> Some (py_str_int i)
      | JBool b \<Rightarrow> Some (if b then ''True'' else ''False'')
      | _ \<Rightarrow> None)"

text \<open>Python's \<^verbatim>\<open>dict\<close> of a list of pairs whose first components are strings.\<close>

definition pair_of :: "json \<Rightarrow> (string \<times> json) option" where
  "pair_of x =
     (case x of
        JArr [JStr k, v] \<Rightarrow> Some (k, v)
      | _ \<Rightarrow> None)"

definition pairs_dict :: "json \<Rightarrow> (string \<times> json) list option" where
  "pairs_dict j =
     (case j of
        JArr xs \<Rightarrow>
          (if list_all (\<lambda>x. pair_of x \<noteq> None) xs
           then Some (map (\<lambda>x. the (pair_of x)) xs)
           else None)
      | _ \<Rightarrow> None)"

definition framework_strict :: framework where
  "framework_strict =
     \<lparr>path_int = decimal_int, lax_str = (\<lambda>v. None), lax_dict = (\<lambda>j. None),
      none_default_nullable = False\<rparr>"

definition framework_lax :: framework where
  "framework_lax =
     \<lparr>path_int = decimal_int, lax_str = scalar_text, lax_dict = pairs_dict,
      none_default_nullable = True\<rparr>"

text \<open>
  Worlds. In \<open>world0\<close> and \<open>world1\<close> the two reads of a call are \<open>1 / 4096\<close> of a second
  apart, and the shared states differ, also in type. In \<open>world_step\<close> the clock is set
  forward by two seconds between the two reads, in \<open>world_back\<close> it is set back by one
  and a half. In \<open>world_9ms\<close> the reads are the doubles 0.0 and 0.009, in \<open>world_1ms\<close>
  the doubles \<open>2 powi (- 65)\<close> and 0.001.
\<close>

definition two_reads :: "rat \<Rightarrow> rat \<Rightarrow> nat \<Rightarrow> timestamp" where
  "two_reads a b k = (if k = 0 then stamp a else stamp b)"

definition world0 :: "unit world" where
  "world0 = \<lparr>clock = two_reads 1700000000 (1700000000 + 1 / 4096), shared = ()\<rparr>"

definition world1 :: "string list world" where
  "world1 = \<lparr>clock = two_reads 1700000000 (1700000000 + 1 / 4096), shared = [''pen'']\<rparr>"

definition world_step :: "unit world" where
  "world_step = \<lparr>clock = two_reads 1700000000 1700000002, shared = ()\<rparr>"

definition world_back :: "unit world" where
  "world_back = \<lparr>clock = two_reads (1700000000 + 3 / 2) 1700000000, shared = ()\<rparr>"

definition world_9ms :: "unit world" where
  "world_9ms = \<lparr>clock = two_reads 0 (5188146770730811 / 2 ^ 59), shared = ()\<rparr>"

definition world_1ms :: "unit world" where
  "world_1ms = \<lparr>clock = two_reads (1 / 2 ^ 65) (1152921504606847 / 2 ^ 60), shared = ()\<rparr>"




section \<open>Properties\<close>

subsection \<open>Rounding to a double\<close>











subsection \<open>What a call does to the world\<close>

lemma app_v1_world: "snd (app_v1 fw w r) = w"
  by (cases r) (simp_all add: app_v1_def)

lemma serve_v1_world: "snd (serve (app_v1 fw) w rs) = w"
proof (induction rs arbitrary: w)
  case Nil
  show ?case by simp
next
  case (Cons r rs)
  have "snd (serve (app_v1 fw) (snd (app_v1 fw w r)) rs) = w"
    using Cons.IH [of "snd (app_v1 fw w r)"] by (simp add: app_v1_world)
  then show ?case by (simp add: split_beta)
qed

lemma readyz_world: "snd (readyz w) = w"
  by (simp add: readyz_def time_time_def)

lemma readyz_body:
  "fst (readyz w) =
     JObj [(''ready'', JBool True),
           (''elapsed_ms'',
            JInt (py_int (double_mul
              (double_sub (stamp_value (clock w 1)) (stamp_value (clock w 0))) 1000)))]"
  by (simp add: readyz_def time_time_def)

lemma app_v2_world: "snd (app_v2 fw w r) = w"
  by (cases r) (simp_all add: app_v2_def split_beta readyz_world)

lemma serve_v2_world: "snd (serve (app_v2 fw) w rs) = w"
proof (induction rs arbitrary: w)
  case Nil
  show ?case by simp
next
  case (Cons r rs)
  have "snd (serve (app_v2 fw) (snd (app_v2 fw w r)) rs) = w"
    using Cons.IH [of "snd (app_v2 fw w r)"] by (simp add: app_v2_world)
  then show ?case by (simp add: split_beta)
qed

lemma app_v1_any_world: "fst (app_v1 fw w r) = fst (app_v1 fw w' r)"
  by (cases r) (simp_all add: app_v1_def)

lemma app_v2_any_world: "r \<noteq> GetReadyz \<Longrightarrow> fst (app_v2 fw w r) = fst (app_v2 fw w' r)"
  by (cases r) (simp_all add: app_v2_def)

lemma app_v2_readyz: "fst (app_v2 fw w GetReadyz) = Inr (fst (readyz w))"
  by (simp add: app_v2_def split_beta)

text \<open>A run: every response is the one its call gives alone, in the first world.\<close>

lemma serve_v2_responses:
  "fst (serve (app_v2 fw) w rs) = map (\<lambda>r. fst (app_v2 fw w r)) rs"
proof (induction rs)
  case Nil
  show ?case by simp
next
  case (Cons r rs)
  have "snd (app_v2 fw w r) = w" by (rule app_v2_world)
  with Cons.IH show ?case by (simp add: split_beta)
qed

lemma serve_timed_v2:
  "fst (serve_timed (app_v2 fw) w trs)
     = map (\<lambda>(c, r). fst (app_v2 fw (w\<lparr>clock := c\<rparr>) r)) trs
   \<and> shared (snd (serve_timed (app_v2 fw) w trs)) = shared w"
proof (induction trs arbitrary: w)
  case Nil
  show ?case by simp
next
  case (Cons tr trs)
  obtain c r where tr: "tr = (c, r)" by (cases tr)
  have step: "snd (app_v2 fw (w\<lparr>clock := c\<rparr>) r) = w\<lparr>clock := c\<rparr>"
    by (rule app_v2_world)
  show ?case
    using Cons.IH [of "w\<lparr>clock := c\<rparr>"] by (simp add: tr split_beta step)
qed

lemma serve_timed_v1:
  "fst (serve_timed (app_v1 fw) w trs)
     = map (\<lambda>(c, r). fst (app_v1 fw (w\<lparr>clock := c\<rparr>) r)) trs
   \<and> shared (snd (serve_timed (app_v1 fw) w trs)) = shared w"
proof (induction trs arbitrary: w)
  case Nil
  show ?case by simp
next
  case (Cons tr trs)
  obtain c r where tr: "tr = (c, r)" by (cases tr)
  have step: "snd (app_v1 fw (w\<lparr>clock := c\<rparr>) r) = w\<lparr>clock := c\<rparr>"
    by (rule app_v1_world)
  show ?case
    using Cons.IH [of "w\<lparr>clock := c\<rparr>"] by (simp add: tr split_beta step)
qed

subsection \<open>The endpoints\<close>

text \<open>
  Claim C7. Every call of \<^verbatim>\<open>GET /\<close> returns the constant object \<^verbatim>\<open>{"Hello": "World"}\<close>,
  in both variants, for every framework, in every world and after every history of
  earlier requests.
\<close>

theorem read_root_constant:
  "fst (app_v1 fw w GetRoot) = Inr (JObj [(''Hello'', JStr ''World'')])
   \<and> fst (app_v2 fw w GetRoot) = Inr (JObj [(''Hello'', JStr ''World'')])
   \<and> fst (app_v1 fw (snd (serve (app_v1 fw) w hist)) GetRoot)
       = Inr (JObj [(''Hello'', JStr ''World'')])
   \<and> fst (app_v2 fw (snd (serve (app_v2 fw) w hist)) GetRoot)
       = Inr (JObj [(''Hello'', JStr ''World'')])"
  by (simp add: app_v1_def app_v2_def read_root_v1_def read_root_v2_def)

text \<open>
  Claim C8. Every call of \<^verbatim>\<open>GET /healthz\<close> in variant 2 returns the constant object
  \<^verbatim>\<open>{"status": "ok"}\<close>, in every world and after every history of earlier requests;
  variant 1 has no such route.
\<close>

theorem healthz_constant:
  "fst (app_v2 fw w GetHealthz) = Inr (JObj [(''status'', JStr ''ok'')])
   \<and> fst (app_v2 fw (snd (serve (app_v2 fw) w hist)) GetHealthz)
       = Inr (JObj [(''status'', JStr ''ok'')])
   \<and> fst (app_v1 fw w GetHealthz) = Inl NotFound"
  by (simp add: app_v1_def app_v2_def healthz_def)

text \<open>
  Claim C2. For every integer \<open>item_id\<close> (the value the path segment coerces to) and
  every optional query string \<open>q\<close>, \<^verbatim>\<open>GET /items/{item_id}\<close> returns the object with the
  members \<open>item_id\<close> and \<open>q\<close>, where \<open>q\<close> is null exactly when the query parameter was not
  supplied. The two examples of the specification are the witness.
\<close>

theorem read_item_echo:
  assumes "path_int fw seg = Some item_id"
  shows
    "fst (app_v1 fw w (GetItem seg q))
       = Inr (JObj [(''item_id'', JInt item_id),
                    (''q'', case q of None \<Rightarrow> JNull | Some s \<Rightarrow> JStr s)])
     \<and> fst (app_v2 fw w (GetItem seg q))
       = Inr (JObj [(''item_id'', JInt item_id),
                    (''q'', case q of None \<Rightarrow> JNull | Some s \<Rightarrow> JStr s)])
     \<and> ((case q of None \<Rightarrow> JNull | Some s \<Rightarrow> JStr s) = JNull \<longleftrightarrow> q = None)"
  using assms
  by (simp add: app_v1_def app_v2_def get_item_v1_def get_item_v2_def
      bind_read_item_v1_def bind_read_item_v2_def read_item_v1_def read_item_v2_def
      json_of_opt_str_def split: option.split)

lemma decimal_int_42: "decimal_int ''42'' = Some 42"
  by (simp add: decimal_int_def digit_val_def)

theorem read_item_echo_witness:
  "fst (app_v1 framework_strict world0 (GetItem ''42'' None))
     = Inr (JObj [(''item_id'', JInt 42), (''q'', JNull)])
   \<and> fst (app_v1 framework_strict world0 (GetItem ''42'' (Some ''foo'')))
     = Inr (JObj [(''item_id'', JInt 42), (''q'', JStr ''foo'')])
   \<and> fst (app_v2 framework_strict world0 (GetItem ''42'' None))
     = Inr (JObj [(''item_id'', JInt 42), (''q'', JNull)])
   \<and> fst (app_v2 framework_strict world0 (GetItem ''42'' (Some ''foo'')))
     = Inr (JObj [(''item_id'', JInt 42), (''q'', JStr ''foo'')])"
proof -
  have p: "path_int framework_strict ''42'' = Some 42"
    by (simp add: framework_strict_def decimal_int_42)
  show ?thesis
    using read_item_echo [OF p, of world0 None]
      read_item_echo [OF p, of world0 "Some ''foo''"]
    by simp
qed

text \<open>
  Claim C5. A path segment that does not coerce to an integer is refused with the
  framework's validation error before \<^verbatim>\<open>read_item\<close> gets its arguments; for a segment
  that does coerce, the response is what the handler returns. The world is the same
  either way.
\<close>

theorem read_item_coercion:
  "(path_int fw seg = None \<longrightarrow>
      bind_read_item_v1 fw seg q = Inl RequestValidationError
      \<and> app_v1 fw w (GetItem seg q) = (Inl RequestValidationError, w)
      \<and> bind_read_item_v2 fw seg q = Inl RequestValidationError
      \<and> app_v2 fw w (GetItem seg q) = (Inl RequestValidationError, w))
   \<and> (path_int fw seg = Some item_id \<longrightarrow>
      bind_read_item_v1 fw seg q = Inr (item_id, q)
      \<and> app_v1 fw w (GetItem seg q) = (Inr (read_item_v1 item_id q), w)
      \<and> bind_read_item_v2 fw seg q = Inr (item_id, q)
      \<and> app_v2 fw w (GetItem seg q) = (Inr (read_item_v2 item_id q), w))"
  by (simp add: app_v1_def app_v2_def get_item_v1_def get_item_v2_def
      bind_read_item_v1_def bind_read_item_v2_def)

lemma decimal_int_abc: "decimal_int ''abc'' = None"
  by (simp add: decimal_int_def digit_val_def)

lemma decimal_int_minus_7: "decimal_int ''-7'' = Some (- 7)"
  by (simp add: decimal_int_def digit_val_def)

theorem read_item_coercion_witness:
  "app_v1 framework_strict world0 (GetItem ''abc'' None)
     = (Inl RequestValidationError, world0)
   \<and> app_v2 framework_strict world0 (GetItem ''abc'' None)
     = (Inl RequestValidationError, world0)
   \<and> app_v1 framework_strict world0 (GetItem ''-7'' (Some ''x''))
     = (Inr (JObj [(''item_id'', JInt (- 7)), (''q'', JStr ''x'')]), world0)
   \<and> app_v2 framework_strict world0 (GetItem ''-7'' (Some ''x''))
     = (Inr (JObj [(''item_id'', JInt (- 7)), (''q'', JStr ''x'')]), world0)"
proof -
  have n: "path_int framework_strict ''abc'' = None"
    by (simp add: framework_strict_def decimal_int_abc)
  have p: "path_int framework_strict ''-7'' = Some (- 7)"
    by (simp add: framework_strict_def decimal_int_minus_7)
  show ?thesis
    using read_item_coercion [where fw = framework_strict and seg = "''abc''"
          and q = None and w = world0]
      read_item_coercion [where fw = framework_strict and seg = "''-7''"
          and q = "Some ''x''" and w = world0 and item_id = "- 7"]
    by (simp add: n p read_item_v1_def read_item_v2_def json_of_opt_str_def)
qed

text \<open>
  Claim C3. A body that is an object with a textual \<open>name\<close> and a \<open>description\<close> that is
  absent or textual comes back as the Item it describes, with \<open>description\<close> null when
  the body left it out; whatever else the body holds is not echoed, and the world after
  the call is the world before it: nothing is stored. The example of the specification
  is the witness.
\<close>

theorem create_item_echo:
  assumes "dict_get kvs ''name'' = Some (JStr n)"
  shows
    "(dict_get kvs ''description'' = None \<longrightarrow>
        app_v1 fw w (PostItem (Some (JObj kvs)))
          = (Inr (JObj [(''name'', JStr n), (''description'', JNull)]), w)
        \<and> app_v2 fw w (PostItem (Some (JObj kvs)))
          = (Inr (JObj [(''name'', JStr n), (''description'', JNull)]), w))
     \<and> (dict_get kvs ''description'' = Some (JStr d) \<longrightarrow>
        app_v1 fw w (PostItem (Some (JObj kvs)))
          = (Inr (JObj [(''name'', JStr n), (''description'', JStr d)]), w)
        \<and> app_v2 fw w (PostItem (Some (JObj kvs)))
          = (Inr (JObj [(''name'', JStr n), (''description'', JStr d)]), w))"
  using assms
  by (simp add: app_v1_def app_v2_def post_item_v1_def post_item_v2_def
      bind_create_item_v1_def bind_create_item_v2_def Item_v1_validate_def
      Item_v2_validate_def body_dict_def validate_str_def validate_str_default_none_def
      create_item_v1_def create_item_v2_def Item_v1_json_def Item_v2_json_def
      json_of_opt_str_def)

theorem create_item_echo_witness:
  "app_v1 framework_strict world0 (PostItem (Some (JObj [(''name'', JStr ''pen'')])))
     = (Inr (JObj [(''name'', JStr ''pen''), (''description'', JNull)]), world0)
   \<and> app_v2 framework_strict world0 (PostItem (Some (JObj [(''name'', JStr ''pen'')])))
     = (Inr (JObj [(''name'', JStr ''pen''), (''description'', JNull)]), world0)
   \<and> app_v1 framework_strict world0
       (PostItem (Some (JObj [(''name'', JStr ''pen''), (''description'', JStr ''blue'')])))
     = (Inr (JObj [(''name'', JStr ''pen''), (''description'', JStr ''blue'')]), world0)
   \<and> app_v2 framework_strict world0
       (PostItem (Some (JObj [(''name'', JStr ''pen''), (''description'', JStr ''blue'')])))
     = (Inr (JObj [(''name'', JStr ''pen''), (''description'', JStr ''blue'')]), world0)"
proof -
  have a: "dict_get [(''name'', JStr ''pen'')] ''name'' = Some (JStr ''pen'')"
    by (simp add: dict_get_def)
  have b: "dict_get [(''name'', JStr ''pen'')] ''description'' = None"
    by (simp add: dict_get_def)
  have c: "dict_get [(''name'', JStr ''pen''), (''description'', JStr ''blue'')] ''name''
             = Some (JStr ''pen'')"
    by (simp add: dict_get_def)
  have d: "dict_get [(''name'', JStr ''pen''), (''description'', JStr ''blue'')] ''description''
             = Some (JStr ''blue'')"
    by (simp add: dict_get_def)
  show ?thesis
    using create_item_echo [OF a, where fw = framework_strict and w = world0]
      create_item_echo [OF c, where fw = framework_strict and w = world0 and d = "''blue''"]
    by (simp add: b d)
qed





text \<open>
  An explicit null for \<open>description\<close> is another body on which the versions of the
  validation library disagree: the outcome is the parameter \<open>none_default_nullable\<close>.
\<close>

lemma explicit_null_description:
  "app_v1 fw w (PostItem (Some (JObj [(''name'', JStr n), (''description'', JNull)])))
     = (if none_default_nullable fw
        then Inr (JObj [(''name'', JStr n), (''description'', JNull)])
        else Inl RequestValidationError, w)
   \<and> app_v2 fw w (PostItem (Some (JObj [(''name'', JStr n), (''description'', JNull)])))
     = (if none_default_nullable fw
        then Inr (JObj [(''name'', JStr n), (''description'', JNull)])
        else Inl RequestValidationError, w)"
  by (simp add: app_v1_def app_v2_def post_item_v1_def post_item_v2_def
      bind_create_item_v1_def bind_create_item_v2_def Item_v1_validate_def
      Item_v2_validate_def body_dict_def validate_str_def validate_str_default_none_def
      create_item_v1_def create_item_v2_def Item_v1_json_def Item_v2_json_def
      json_of_opt_str_def dict_get_def)

lemma explicit_null_examples:
  "fst (app_v2 framework_lax world0
          (PostItem (Some (JObj [(''name'', JStr ''pen''), (''description'', JNull)]))))
     = Inr (JObj [(''name'', JStr ''pen''), (''description'', JNull)])
   \<and> fst (app_v2 framework_strict world0
          (PostItem (Some (JObj [(''name'', JStr ''pen''), (''description'', JNull)]))))
     = Inl RequestValidationError"
  by (simp add: explicit_null_description framework_lax_def framework_strict_def)

subsection \<open>The readiness probe\<close>

text \<open>The values that the two reads of a call return in the worlds of the examples.\<close>

lemma two_reads_values:
  "stamp_value (two_reads a b 0) = (if is_timestamp a then a else 0)"
  "stamp_value (two_reads a b (Suc 0)) = (if is_timestamp b then b else 0)"
  "stamp_value (two_reads a b 1) = (if is_timestamp b then b else 0)"
  by (simp_all add: two_reads_def stamp.rep_eq)


lemma readyz_examples:
  "fst (readyz world_step) = JObj [(''ready'', JBool True), (''elapsed_ms'', JInt 2000)]"
  "fst (readyz world_back) = JObj [(''ready'', JBool True), (''elapsed_ms'', JInt (- 1500))]"
  "fst (readyz world_9ms) = JObj [(''ready'', JBool True), (''elapsed_ms'', JInt 9)]"
  "fst (readyz world_1ms) = JObj [(''ready'', JBool True), (''elapsed_ms'', JInt 1)]"
  by (simp add: readyz_body world_step_def world_back_def world_9ms_def world_1ms_def
      two_reads_values; code_simp)+




text \<open>
  The arithmetic is that of doubles. With the reads 0.0 and 0.009 the product is the
  double 9.0, where the exact product of the two values lies below 9; and two reads
  less than a millisecond apart can give 1, since the difference and the product are both
  rounded up.
\<close>

lemma readyz_double_examples:
  "fst (app_v2 fw world_9ms GetReadyz)
     = Inr (JObj [(''ready'', JBool True), (''elapsed_ms'', JInt 9)])"
  "py_int ((stamp_value (clock world_9ms 1) - stamp_value (clock world_9ms 0)) * 1000) = 8"
  "fst (app_v2 fw world_1ms GetReadyz)
     = Inr (JObj [(''ready'', JBool True), (''elapsed_ms'', JInt 1)])"
  "\<bar>stamp_value (clock world_1ms 1) - stamp_value (clock world_1ms 0)\<bar> < 1 / 1000"
proof -
  show "fst (app_v2 fw world_9ms GetReadyz)
          = Inr (JObj [(''ready'', JBool True), (''elapsed_ms'', JInt 9)])"
    by (simp add: app_v2_readyz readyz_examples)
  show "fst (app_v2 fw world_1ms GetReadyz)
          = Inr (JObj [(''ready'', JBool True), (''elapsed_ms'', JInt 1)])"
    by (simp add: app_v2_readyz readyz_examples)
  show "py_int ((stamp_value (clock world_9ms 1) - stamp_value (clock world_9ms 0)) * 1000) = 8"
    by (simp add: world_9ms_def two_reads_values; code_simp)
  show "\<bar>stamp_value (clock world_1ms 1) - stamp_value (clock world_1ms 0)\<bar> < 1 / 1000"
    by (simp add: world_1ms_def two_reads_values; code_simp)
qed

subsection \<open>The two variants against each other\<close>

text \<open>
  Claim C6. On \<^verbatim>\<open>GET /\<close>, \<^verbatim>\<open>GET /items/{item_id}\<close> and \<^verbatim>\<open>POST /items/\<close> the two variants give
  the same response and leave the same world, for every input and every framework; the
  two Item models accept the same bodies and build the same fields from them. The
  variants differ on the two probes only, which variant 1 does not route and variant 2
  answers.
\<close>

theorem variants_agree:
  "app_v1 fw w GetRoot = app_v2 fw w GetRoot
   \<and> app_v1 fw w (GetItem seg q) = app_v2 fw w (GetItem seg q)
   \<and> app_v1 fw w (PostItem b) = app_v2 fw w (PostItem b)
   \<and> map_sum id (\<lambda>it. (name_v1 it, description_v1 it)) (Item_v1_validate fw body)
       = map_sum id (\<lambda>it. (name_v2 it, description_v2 it)) (Item_v2_validate fw body)
   \<and> fst (app_v1 fw w GetHealthz) = Inl NotFound
   \<and> fst (app_v1 fw w GetReadyz) = Inl NotFound
   \<and> fst (app_v2 fw w GetHealthz) = Inr healthz
   \<and> fst (app_v2 fw w GetReadyz) = Inr (fst (readyz w))"
proof -
  have root: "app_v1 fw w GetRoot = app_v2 fw w GetRoot"
    by (simp add: app_v1_def app_v2_def read_root_v1_def read_root_v2_def)
  have item: "app_v1 fw w (GetItem seg q) = app_v2 fw w (GetItem seg q)"
    by (simp add: app_v1_def app_v2_def get_item_v1_def get_item_v2_def
        bind_read_item_v1_def bind_read_item_v2_def read_item_v1_def read_item_v2_def
        split: option.split)
  have model:
    "map_sum id (\<lambda>it. (name_v1 it, description_v1 it)) (Item_v1_validate fw body)
       = map_sum id (\<lambda>it. (name_v2 it, description_v2 it)) (Item_v2_validate fw body)"
    for body
    by (simp add: Item_v1_validate_def Item_v2_validate_def
        split: option.split sum.split)
  have post: "post_item_v1 fw b = post_item_v2 fw b"
  proof (cases b)
    case None
    then show ?thesis
      by (simp add: post_item_v1_def post_item_v2_def
          bind_create_item_v1_def bind_create_item_v2_def)
  next
    case (Some body)
    show ?thesis
      using model [of body]
      by (cases "Item_v1_validate fw body"; cases "Item_v2_validate fw body")
        (simp_all add: Some post_item_v1_def post_item_v2_def
          bind_create_item_v1_def bind_create_item_v2_def
          create_item_v1_def create_item_v2_def Item_v1_json_def Item_v2_json_def)
  qed
  have probes:
    "fst (app_v1 fw w GetHealthz) = Inl NotFound
     \<and> fst (app_v1 fw w GetReadyz) = Inl NotFound
     \<and> fst (app_v2 fw w GetHealthz) = Inr healthz
     \<and> fst (app_v2 fw w GetReadyz) = Inr (fst (readyz w))"
    by (simp add: app_v1_def app_v2_def split_beta)
  show ?thesis
    using root item model [of body] post probes
    by (simp add: app_v1_def app_v2_def)
qed

subsection \<open>No state between requests\<close>

text \<open>
  Claim C9. No handler reads or writes state shared between requests: every call, of any
  endpoint and \<^verbatim>\<open>GET /readyz\<close> among them, leaves the world as it was, so that no call
  changes the result of any other call. In a run of requests, with or without time
  passing between them, every response is the one its call gives alone, and the shared
  state after the run is the shared state before it. For \<^verbatim>\<open>GET /\<close>,
  \<^verbatim>\<open>GET /items/{item_id}\<close>, \<^verbatim>\<open>POST /items/\<close> and \<^verbatim>\<open>GET /healthz\<close> (every request but
  \<^verbatim>\<open>GET /readyz\<close>), two calls with the same inputs give the same response, whatever the two
  worlds they start from and whatever the two histories of requests served before them;
  the response of \<^verbatim>\<open>GET /readyz\<close> depends on the clock alone. Variant 1 has the same
  properties for all its requests.
\<close>

theorem no_shared_state:
  "snd (app_v2 fw w r) = w
   \<and> app_v2 fw (snd (app_v2 fw w r)) r' = app_v2 fw w r'
   \<and> snd (serve (app_v2 fw) w hist) = w
   \<and> fst (serve (app_v2 fw) w hist) = map (\<lambda>r. fst (app_v2 fw w r)) hist
   \<and> fst (serve_timed (app_v2 fw) w thist)
       = map (\<lambda>(c, r). fst (app_v2 fw (w\<lparr>clock := c\<rparr>) r)) thist
   \<and> shared (snd (serve_timed (app_v2 fw) w thist)) = shared w
   \<and> (r \<noteq> GetReadyz \<longrightarrow>
        fst (app_v2 fw (snd (serve (app_v2 fw) w hist)) r)
          = fst (app_v2 fw (snd (serve (app_v2 fw) w' hist')) r)
        \<and> fst (app_v2 fw (snd (serve_timed (app_v2 fw) w thist)) r)
          = fst (app_v2 fw (snd (serve_timed (app_v2 fw) w' thist')) r))
   \<and> (clock w = clock w' \<longrightarrow>
        fst (app_v2 fw w GetReadyz) = fst (app_v2 fw w' GetReadyz))
   \<and> snd (app_v1 fw w r) = w
   \<and> snd (serve (app_v1 fw) w hist) = w
   \<and> shared (snd (serve_timed (app_v1 fw) w thist)) = shared w
   \<and> fst (app_v1 fw (snd (serve (app_v1 fw) w hist)) r)
       = fst (app_v1 fw (snd (serve (app_v1 fw) w' hist')) r)
   \<and> fst (app_v1 fw (snd (serve_timed (app_v1 fw) w thist)) r)
       = fst (app_v1 fw (snd (serve_timed (app_v1 fw) w' thist')) r)"
proof -
  have kept: "snd (app_v2 fw w r) = w"
    by (rule app_v2_world)
  have later: "app_v2 fw (snd (app_v2 fw w r)) r' = app_v2 fw w r'"
    by (simp only: kept)
  have run: "snd (serve (app_v2 fw) w hist) = w"
    by (rule serve_v2_world)
  have alone: "fst (serve (app_v2 fw) w hist) = map (\<lambda>r. fst (app_v2 fw w r)) hist"
    by (rule serve_v2_responses)
  have timed: "fst (serve_timed (app_v2 fw) w thist)
                 = map (\<lambda>(c, r). fst (app_v2 fw (w\<lparr>clock := c\<rparr>) r)) thist
               \<and> shared (snd (serve_timed (app_v2 fw) w thist)) = shared w"
    by (rule serve_timed_v2)
  have same: "fst (app_v2 fw (snd (serve (app_v2 fw) w hist)) r)
                = fst (app_v2 fw (snd (serve (app_v2 fw) w' hist')) r)
              \<and> fst (app_v2 fw (snd (serve_timed (app_v2 fw) w thist)) r)
                = fst (app_v2 fw (snd (serve_timed (app_v2 fw) w' thist')) r)"
    if "r \<noteq> GetReadyz"
    using app_v2_any_world [OF that] by blast
  have probe: "fst (app_v2 fw w GetReadyz) = fst (app_v2 fw w' GetReadyz)"
    if "clock w = clock w'"
    using that by (simp add: app_v2_readyz readyz_body)
  have v1: "snd (app_v1 fw w r) = w
            \<and> snd (serve (app_v1 fw) w hist) = w
            \<and> shared (snd (serve_timed (app_v1 fw) w thist)) = shared w"
    using app_v1_world [of fw w r] serve_v1_world [of fw w hist] serve_timed_v1 [of fw w thist]
    by blast
  have same1: "fst (app_v1 fw (snd (serve (app_v1 fw) w hist)) r)
                 = fst (app_v1 fw (snd (serve (app_v1 fw) w' hist')) r)
               \<and> fst (app_v1 fw (snd (serve_timed (app_v1 fw) w thist)) r)
                 = fst (app_v1 fw (snd (serve_timed (app_v1 fw) w' thist')) r)"
    using app_v1_any_world by blast
  from kept later run alone timed same probe v1 same1 show ?thesis
    by blast
qed

theorem no_shared_state_witness:
  "fst (app_v2 framework_strict
         (snd (serve (app_v2 framework_strict) world0
                [GetReadyz, PostItem (Some (JObj [(''name'', JStr ''pen'')])), GetRoot]))
         (GetItem ''42'' None))
     = fst (app_v2 framework_strict
             (snd (serve (app_v2 framework_strict) world1 [GetHealthz]))
             (GetItem ''42'' None))
   \<and> fst (app_v2 framework_strict
         (snd (serve_timed (app_v2 framework_strict) world0
                [(clock world_step, GetReadyz), (clock world_back, GetReadyz)]))
         (GetItem ''42'' None))
     = fst (app_v2 framework_strict
             (snd (serve_timed (app_v2 framework_strict) world1 []))
             (GetItem ''42'' None))
   \<and> app_v2 framework_strict (snd (app_v2 framework_strict world0 GetReadyz)) GetReadyz
     = app_v2 framework_strict world0 GetReadyz
   \<and> fst (app_v2 framework_strict world0 GetReadyz)
     = fst (app_v2 framework_strict world1 GetReadyz)"
proof -
  have a: "GetItem ''42'' None \<noteq> GetReadyz"
    by simp
  have c: "clock world0 = clock world1"
    by (simp add: world0_def world1_def)
  note T = no_shared_state [where fw = framework_strict and w = world0 and w' = world1
      and r = "GetItem ''42'' None" and hist' = "[GetHealthz]" and thist' = "[]"
      and hist = "[GetReadyz, PostItem (Some (JObj [(''name'', JStr ''pen'')])), GetRoot]"
      and thist = "[(clock world_step, GetReadyz), (clock world_back, GetReadyz)]"]
  note U = no_shared_state [where fw = framework_strict and w = world0
      and r = GetReadyz and r' = GetReadyz]
  have 1: "fst (app_v2 framework_strict
         (snd (serve (app_v2 framework_strict) world0
                [GetReadyz, PostItem (Some (JObj [(''name'', JStr ''pen'')])), GetRoot]))
         (GetItem ''42'' None))
     = fst (app_v2 framework_strict
             (snd (serve (app_v2 framework_strict) world1 [GetHealthz]))
             (GetItem ''42'' None))"
    using T a by blast
  have 2: "fst (app_v2 framework_strict
         (snd (serve_timed (app_v2 framework_strict) world0
                [(clock world_step, GetReadyz), (clock world_back, GetReadyz)]))
         (GetItem ''42'' None))
     = fst (app_v2 framework_strict
             (snd (serve_timed (app_v2 framework_strict) world1 []))
             (GetItem ''42'' None))"
    using T a by blast
  have 3: "app_v2 framework_strict (snd (app_v2 framework_strict world0 GetReadyz)) GetReadyz
             = app_v2 framework_strict world0 GetReadyz"
    using U by blast
  have 4: "fst (app_v2 framework_strict world0 GetReadyz)
             = fst (app_v2 framework_strict world1 GetReadyz)"
    using T c by blast
  from 1 2 3 4 show ?thesis
    by blast
qed

end
